theory Spec2Isabelle
  imports Complex_Main
begin

section \<open>JavaScript numbers\<close>

text \<open>
  The component computes with JavaScript numbers. They are modelled as exact rationals
  extended with the two infinities and NaN, so that a division by zero is a value of the
  model (as it is in JavaScript, where it never throws) and not the \<open>x / 0 = 0\<close> of HOL.
  Rounding to double precision is not modelled, and zero is unsigned: the divisors of
  \<open>getFittingSize\<close> are differences with a positive constant and the ratio, neither of
  which is a negative zero.
\<close>

datatype jsnum = Fin rat | PInf | NInf | NaN

text \<open>\<open>a - b\<close>: NaN as soon as one side is NaN, and for the difference of equal
  infinities.\<close>

fun js_sub :: "jsnum \<Rightarrow> jsnum \<Rightarrow> jsnum" where
  "js_sub (Fin a) (Fin b) = Fin (a - b)"
| "js_sub NaN _ = NaN"
| "js_sub _ NaN = NaN"
| "js_sub PInf PInf = NaN"
| "js_sub NInf NInf = NaN"
| "js_sub PInf _ = PInf"
| "js_sub NInf _ = NInf"
| "js_sub (Fin a) PInf = NInf"
| "js_sub (Fin a) NInf = PInf"

text \<open>\<open>a / b\<close>: a finite quotient, an infinity when a non-zero number is divided by zero,
  NaN for \<open>0 / 0\<close> and for a quotient of infinities.\<close>

fun js_div :: "jsnum \<Rightarrow> jsnum \<Rightarrow> jsnum" where
  "js_div (Fin a) (Fin b) =
     (if b = 0 then (if a = 0 then NaN else if 0 < a then PInf else NInf)
      else Fin (a / b))"
| "js_div NaN _ = NaN"
| "js_div _ NaN = NaN"
| "js_div (Fin a) PInf = Fin 0"
| "js_div (Fin a) NInf = Fin 0"
| "js_div PInf (Fin b) = (if 0 \<le> b then PInf else NInf)"
| "js_div NInf (Fin b) = (if 0 \<le> b then NInf else PInf)"
| "js_div PInf _ = NaN"
| "js_div NInf _ = NaN"

text \<open>\<open>a < b\<close>: false as soon as one side is NaN.\<close>

fun js_lt :: "jsnum \<Rightarrow> jsnum \<Rightarrow> bool" where
  "js_lt (Fin a) (Fin b) = (a < b)"
| "js_lt NaN _ = False"
| "js_lt _ NaN = False"
| "js_lt _ NInf = False"
| "js_lt PInf _ = False"
| "js_lt NInf _ = True"
| "js_lt (Fin a) PInf = True"

text \<open>\<open>Math.max(a, b)\<close>: NaN as soon as one argument is NaN.\<close>

fun js_max :: "jsnum \<Rightarrow> jsnum \<Rightarrow> jsnum" where
  "js_max (Fin a) (Fin b) = Fin (max a b)"
| "js_max NaN _ = NaN"
| "js_max _ NaN = NaN"
| "js_max PInf _ = PInf"
| "js_max _ PInf = PInf"
| "js_max NInf b = b"
| "js_max a NInf = a"

text \<open>\<open>x || 0\<close> on a number: the falsy numbers are zero and NaN.\<close>

definition js_or_zero :: "jsnum \<Rightarrow> jsnum" where
  "js_or_zero x = (if x = Fin 0 \<or> x = NaN then Fin 0 else x)"

text \<open>A number that is neither an infinity nor NaN, and is not below zero.\<close>

fun finite_nonneg :: "jsnum \<Rightarrow> bool" where
  "finite_nonneg (Fin a) = (0 \<le> a)"
| "finite_nonneg _ = False"

section \<open>The fitting computation\<close>

record IImageSize =
  width :: jsnum
  height :: jsnum

definition SIZE_CONTROLS :: jsnum where
  "SIZE_CONTROLS = Fin 60"

definition PADDING :: jsnum where
  "PADDING = Fin 20"

text \<open>The constants \<open>containerWidth\<close> and \<open>containerHeight\<close> local to
  \<open>getFittingSize\<close> (the container less the padding and, vertically, less the controls).
  They carry the prefix \<open>fit_\<close> here, because \<open>getScaledDimensions\<close> returns fields of
  the same names that hold the unreduced measurements.\<close>

definition fit_containerWidth :: "IImageSize \<Rightarrow> jsnum" where
  "fit_containerWidth containerSize = js_sub (width containerSize) PADDING"

definition fit_containerHeight :: "IImageSize \<Rightarrow> jsnum" where
  "fit_containerHeight containerSize =
     js_sub (js_sub (height containerSize) PADDING) SIZE_CONTROLS"

definition heightRatio :: "IImageSize \<Rightarrow> IImageSize \<Rightarrow> jsnum" where
  "heightRatio imageSize containerSize =
     (if js_lt (fit_containerHeight containerSize) (height imageSize)
      then js_div (height imageSize) (fit_containerHeight containerSize)
      else Fin 1)"

definition widthRatio :: "IImageSize \<Rightarrow> IImageSize \<Rightarrow> jsnum" where
  "widthRatio imageSize containerSize =
     (if js_lt (fit_containerWidth containerSize) (width imageSize)
      then js_div (width imageSize) (fit_containerWidth containerSize)
      else Fin 1)"

text \<open>The variable \<open>ratio\<close> at the return statement.\<close>

definition ratio :: "IImageSize \<Rightarrow> IImageSize \<Rightarrow> jsnum" where
  "ratio imageSize containerSize =
     (let r = js_max (Fin 1) (widthRatio imageSize containerSize)
      in if js_lt (widthRatio imageSize containerSize) (heightRatio imageSize containerSize)
         then js_max (Fin 1) (heightRatio imageSize containerSize)
         else r)"

definition getFittingSize :: "IImageSize \<Rightarrow> IImageSize \<Rightarrow> IImageSize" where
  "getFittingSize imageSize containerSize =
     \<lparr> width = js_div (width imageSize) (ratio imageSize containerSize),
       height = js_div (height imageSize) (ratio imageSize containerSize) \<rparr>"

text \<open>The right operands of the divisions that one call of \<open>getFittingSize\<close> evaluates,
  in the order of evaluation: the two conditional ones, then the two of the result.\<close>

definition getFittingSize_divisors :: "IImageSize \<Rightarrow> IImageSize \<Rightarrow> jsnum list" where
  "getFittingSize_divisors imageSize containerSize =
     (if js_lt (fit_containerHeight containerSize) (height imageSize)
      then [fit_containerHeight containerSize] else []) @
     (if js_lt (fit_containerWidth containerSize) (width imageSize)
      then [fit_containerWidth containerSize] else []) @
     [ratio imageSize containerSize, ratio imageSize containerSize]"

text \<open>A size whose two numbers are finite.\<close>

definition size_of :: "rat \<Rightarrow> rat \<Rightarrow> IImageSize" where
  "size_of w h = \<lparr> width = Fin w, height = Fin h \<rparr>"

section \<open>The builtin \<open>parseFloat\<close>\<close>

text \<open>
  \<open>parseFloat\<close> skips leading white space and reads the longest prefix that is a signed
  decimal literal: \<open>Infinity\<close>, or digits with an optional fraction and an optional
  exponent, where the digits before or after the point may be missing but not both. It
  returns NaN when there is no such prefix. Characters are bytes here, so the white space
  is that of ASCII.
\<close>

definition is_digit :: "char \<Rightarrow> bool" where
  "is_digit c = (c \<in> set ''0123456789'')"

definition is_space :: "char \<Rightarrow> bool" where
  "is_space c = (of_char c \<in> {9, 10, 11, 12, 13, 32 :: nat})"

definition digits_value :: "string \<Rightarrow> nat" where
  "digits_value ds = foldl (\<lambda>n c. 10 * n + (of_char c - of_char CHR ''0'')) 0 ds"

text \<open>The exponent part at the head of the rest of the input, 0 when there is none.\<close>

definition exponent_part :: "string \<Rightarrow> int" where
  "exponent_part s =
     (case s of
        [] \<Rightarrow> 0
      | c # r \<Rightarrow>
          if c = CHR ''e'' \<or> c = CHR ''E'' then
            (case r of
               [] \<Rightarrow> 0
             | d # r' \<Rightarrow>
                 if d = CHR ''-'' then
                   (if takeWhile is_digit r' = [] then 0
                    else - int (digits_value (takeWhile is_digit r')))
                 else if d = CHR ''+'' then int (digits_value (takeWhile is_digit r'))
                 else int (digits_value (takeWhile is_digit r)))
          else 0)"

definition pow10 :: "int \<Rightarrow> rat" where
  "pow10 e = (if 0 \<le> e then 10 ^ nat e else 1 / 10 ^ nat (- e))"

definition unsigned_literal :: "string \<Rightarrow> jsnum" where
  "unsigned_literal s =
     (if take 8 s = ''Infinity'' then PInf
      else
        let ip = takeWhile is_digit s;
            r1 = dropWhile is_digit s;
            fp = (case r1 of [] \<Rightarrow> [] | c # r \<Rightarrow> if c = CHR ''.'' then takeWhile is_digit r else []);
            r2 = (case r1 of [] \<Rightarrow> [] | c # r \<Rightarrow> if c = CHR ''.'' then dropWhile is_digit r else r1)
        in if ip = [] \<and> fp = [] then NaN
           else Fin ((of_nat (digits_value ip) + of_nat (digits_value fp) / 10 ^ length fp)
                     * pow10 (exponent_part r2)))"

definition js_neg :: "jsnum \<Rightarrow> jsnum" where
  "js_neg x = (case x of Fin a \<Rightarrow> Fin (- a) | PInf \<Rightarrow> NInf | NInf \<Rightarrow> PInf | NaN \<Rightarrow> NaN)"

definition parseFloat :: "string \<Rightarrow> jsnum" where
  "parseFloat s =
     (case dropWhile is_space s of
        [] \<Rightarrow> NaN
      | c # r \<Rightarrow>
          if c = CHR ''-'' then js_neg (unsigned_literal r)
          else if c = CHR ''+'' then unsigned_literal r
          else unsigned_literal (c # r))"

section \<open>The component\<close>

record IModifiedImageDiffState =
  "value" :: jsnum
  previousImageSize :: "IImageSize option"
  currentImageSize :: "IImageSize option"

text \<open>The component: its state, and the field \<open>container\<close>, which is null or the element
  whose bounding rectangle is measured (the element is represented by that rectangle).\<close>

record ModifiedImageDiff =
  state :: IModifiedImageDiffState
  container :: "IImageSize option"

text \<open>The state that the constructor sets; the container is not assigned yet.\<close>

definition constructor :: ModifiedImageDiff where
  "constructor =
     \<lparr> state = \<lparr> value = Fin 1, previousImageSize = None, currentImageSize = None \<rparr>,
       container = None \<rparr>"

text \<open>The handlers. \<open>onValueChange\<close> is given \<open>e.currentTarget.value\<close>, the two load
  handlers \<open>e.currentTarget.naturalWidth\<close> and \<open>e.currentTarget.naturalHeight\<close>, which
  are unsigned integers.\<close>

definition onValueChange :: "string \<Rightarrow> ModifiedImageDiff \<Rightarrow> ModifiedImageDiff" where
  "onValueChange v this = this \<lparr> state := (state this) \<lparr> value := parseFloat v \<rparr> \<rparr>"

definition onPreviousImageLoad :: "nat \<Rightarrow> nat \<Rightarrow> ModifiedImageDiff \<Rightarrow> ModifiedImageDiff" where
  "onPreviousImageLoad naturalWidth naturalHeight this =
     (let size = \<lparr> width = Fin (of_nat naturalWidth), height = Fin (of_nat naturalHeight) \<rparr>
      in this \<lparr> state := (state this) \<lparr> previousImageSize := Some size \<rparr> \<rparr>)"

definition onCurrentImageLoad :: "nat \<Rightarrow> nat \<Rightarrow> ModifiedImageDiff \<Rightarrow> ModifiedImageDiff" where
  "onCurrentImageLoad naturalWidth naturalHeight this =
     (let size = \<lparr> width = Fin (of_nat naturalWidth), height = Fin (of_nat naturalHeight) \<rparr>
      in this \<lparr> state := (state this) \<lparr> currentImageSize := Some size \<rparr> \<rparr>)"

definition onContainerRef :: "IImageSize option \<Rightarrow> ModifiedImageDiff \<Rightarrow> ModifiedImageDiff" where
  "onContainerRef c this = this \<lparr> container := c \<rparr>"

datatype event =
  ValueChange string
  | PreviousImageLoad nat nat
  | CurrentImageLoad nat nat
  | ContainerRef "IImageSize option"

fun handle :: "ModifiedImageDiff \<Rightarrow> event \<Rightarrow> ModifiedImageDiff" where
  "handle this (ValueChange v) = onValueChange v this"
| "handle this (PreviousImageLoad w h) = onPreviousImageLoad w h this"
| "handle this (CurrentImageLoad w h) = onCurrentImageLoad w h this"
| "handle this (ContainerRef c) = onContainerRef c this"

text \<open>The component after a sequence of events, from its construction.\<close>

definition run :: "event list \<Rightarrow> ModifiedImageDiff" where
  "run evs = foldl handle constructor evs"



text \<open>The result of \<open>getScaledDimensions\<close>: \<open>height\<close> and \<open>width\<close>, then the two
  measurements of the container.\<close>

record ScaledDimensions = IImageSize +
  containerHeight :: jsnum
  containerWidth :: jsnum

text \<open>The object \<open>containerSize\<close> of \<open>getScaledDimensions\<close>: each measurement is
  \<open>(this.container && this.container.getBoundingClientRect().m) || 0\<close>.\<close>

definition containerSize :: "ModifiedImageDiff \<Rightarrow> IImageSize" where
  "containerSize this =
     \<lparr> width = (case container this of None \<Rightarrow> Fin 0 | Some rect \<Rightarrow> js_or_zero (width rect)),
       height = (case container this of None \<Rightarrow> Fin 0 | Some rect \<Rightarrow> js_or_zero (height rect)) \<rparr>"

definition getScaledDimensions :: "ModifiedImageDiff \<Rightarrow> ScaledDimensions" where
  "getScaledDimensions this =
     (case (previousImageSize (state this), currentImageSize (state this)) of
        (Some previous, Some current) \<Rightarrow>
          let previousSize = getFittingSize previous (containerSize this);
              currentSize = getFittingSize current (containerSize this)
          in \<lparr> width = js_max (width previousSize) (height currentSize),
               height = js_max (height previousSize) (height currentSize),
               containerHeight = height (containerSize this),
               containerWidth = width (containerSize this) \<rparr>
      | _ \<Rightarrow>
          \<lparr> width = Fin 0, height = Fin 0,
            containerHeight = height (containerSize this),
            containerWidth = width (containerSize this) \<rparr>)"

section \<open>The ratios on finite sizes\<close>

lemmas fitting_defs =
  getFittingSize_def ratio_def widthRatio_def heightRatio_def
  fit_containerWidth_def fit_containerHeight_def PADDING_def SIZE_CONTROLS_def size_of_def

lemma widthRatio_finite:
  "widthRatio (size_of w h) (size_of cw ch) =
     (if cw - 20 < w then (if cw - 20 = 0 then PInf else Fin (w / (cw - 20))) else Fin 1)"
  by (simp add: widthRatio_def fit_containerWidth_def PADDING_def size_of_def)

lemma heightRatio_finite:
  "heightRatio (size_of w h) (size_of cw ch) =
     (if ch - 20 - 60 < h then (if ch - 20 - 60 = 0 then PInf else Fin (h / (ch - 20 - 60)))
      else Fin 1)"
  by (simp add: heightRatio_def fit_containerHeight_def PADDING_def SIZE_CONTROLS_def size_of_def)


lemma ratio_one:
  assumes "cw - 20 < w \<longrightarrow> cw - 20 \<noteq> 0 \<and> w / (cw - 20) \<le> 1"
      and "ch - 20 - 60 < h \<longrightarrow> ch - 20 - 60 \<noteq> 0 \<and> h / (ch - 20 - 60) \<le> 1"
  shows "ratio (size_of w h) (size_of cw ch) = Fin 1"
  unfolding ratio_def widthRatio_finite heightRatio_finite Let_def
  using assms by (auto simp add: max_def)

lemma getFittingSize_ratio_one:
  assumes "ratio (size_of w h) c = Fin 1"
  shows "getFittingSize (size_of w h) c = size_of w h"
  using assms by (simp add: getFittingSize_def size_of_def)

section \<open>Sizes that already fit\<close>

text \<open>
  C1. An image whose width is at most the container width less 20 and whose height is at
  most the container height less 20 and less 60 is returned unchanged: both ratios are 1
  and the result has the width and the height of the image.
\<close>

theorem getFittingSize_fits_unchanged:
  assumes "w \<le> cw - 20" and "h \<le> ch - 20 - 60"
  shows "widthRatio (size_of w h) (size_of cw ch) = Fin 1
       \<and> heightRatio (size_of w h) (size_of cw ch) = Fin 1
       \<and> getFittingSize (size_of w h) (size_of cw ch) = size_of w h"
  using assms by (simp add: fitting_defs)

theorem getFittingSize_fits_unchanged_witness:
  "(300::rat) \<le> 620 - 20 \<and> (200::rat) \<le> 300 - 20 - 60
   \<and> widthRatio (size_of 300 200) (size_of 620 300) = Fin 1
   \<and> heightRatio (size_of 300 200) (size_of 620 300) = Fin 1
   \<and> getFittingSize (size_of 300 200) (size_of 620 300) = size_of 300 200"
  using getFittingSize_fits_unchanged [of 300 620 200 300] by simp

section \<open>Sizes that exceed the usable area\<close>





section \<open>Fitting twice\<close>





section \<open>The worked example\<close>


section \<open>Containers that leave no room\<close>

text \<open>For an image with positive sides the ratio is infinite exactly when one of the two
  usable extents is zero, and is a number from 1 on otherwise, whatever the container.\<close>

lemma ratio_positive_image:
  assumes "0 < w" and "0 < h"
  shows "ratio (size_of w h) c = PInf
           \<and> (fit_containerWidth c = Fin 0 \<or> fit_containerHeight c = Fin 0)
       \<or> (\<exists>r. ratio (size_of w h) c = Fin r \<and> 1 \<le> r
              \<and> fit_containerWidth c \<noteq> Fin 0 \<and> fit_containerHeight c \<noteq> Fin 0)"
proof -
  obtain cw ch where c: "c = \<lparr>width = cw, height = ch\<rparr>" by (cases c) auto
  show ?thesis using assms unfolding c
    by (cases cw; cases ch) (auto simp add: fitting_defs Let_def max_def)
qed

text \<open>
  C6, as the code has it. For every image with positive width and height and every
  container, also the zero container and containers smaller than the reserved space,
  \<open>getFittingSize\<close> returns two finite numbers that are not negative (no operation of
  the function can throw: all of them are total in the model as they are in JavaScript).
  It divides by zero exactly when the usable width or the usable height is zero, that is
  for a container 20 wide or 80 high; the quotient is then infinite and the result is 0
  by 0.
\<close>

theorem getFittingSize_positive_image:
  assumes "0 < w" and "0 < h"
  shows "finite_nonneg (width (getFittingSize (size_of w h) c))
       \<and> finite_nonneg (height (getFittingSize (size_of w h) c))
       \<and> (Fin 0 \<in> set (getFittingSize_divisors (size_of w h) c)
            \<longleftrightarrow> fit_containerWidth c = Fin 0 \<or> fit_containerHeight c = Fin 0)
       \<and> (fit_containerWidth c = Fin 0 \<or> fit_containerHeight c = Fin 0
            \<longrightarrow> getFittingSize (size_of w h) c = size_of 0 0)"
proof -
  from ratio_positive_image [OF assms, of c]
  consider (inf) "ratio (size_of w h) c = PInf"
      "fit_containerWidth c = Fin 0 \<or> fit_containerHeight c = Fin 0"
    | (fin) r where "ratio (size_of w h) c = Fin r" "1 \<le> r"
      "fit_containerWidth c \<noteq> Fin 0" "fit_containerHeight c \<noteq> Fin 0"
    by blast
  then show ?thesis
  proof cases
    case inf
    have out: "getFittingSize (size_of w h) c = size_of 0 0"
      using inf(1) by (simp add: getFittingSize_def size_of_def)
    have "Fin 0 \<in> set (getFittingSize_divisors (size_of w h) c)"
      using inf(2) assms by (auto simp add: getFittingSize_divisors_def size_of_def)
    then show ?thesis using inf(2) out by (simp add: size_of_def)
  next
    case fin
    have out: "getFittingSize (size_of w h) c = size_of (w / r) (h / r)"
      using fin(1,2) by (simp add: getFittingSize_def size_of_def)
    have "Fin 0 \<notin> set (getFittingSize_divisors (size_of w h) c)"
      using fin by (auto simp add: getFittingSize_divisors_def)
    then show ?thesis using fin(2,3,4) out assms by (simp add: size_of_def)
  qed
qed

theorem getFittingSize_positive_image_witness:
  "(0::rat) < 100 \<and> (0::rat) < 50
   \<and> getFittingSize (size_of 100 50) (size_of 0 0) = size_of 100 50
   \<and> Fin 0 \<notin> set (getFittingSize_divisors (size_of 100 50) (size_of 0 0))
   \<and> fit_containerHeight (size_of 300 80) = Fin 0
   \<and> getFittingSize (size_of 100 50) (size_of 300 80) = size_of 0 0
   \<and> Fin 0 \<in> set (getFittingSize_divisors (size_of 100 50) (size_of 300 80))"
  using getFittingSize_positive_image [where w = 100 and h = 50 and c = "size_of 0 0"]
    getFittingSize_positive_image [where w = 100 and h = 50 and c = "size_of 300 80"]
  by (simp add: fitting_defs)

text \<open>The image 100 by 100 in a container 20 wide: the width is divided by the usable
  width, which is 0.\<close>

theorem getFittingSize_divides_by_zero:
  "Fin 0 \<in> set (getFittingSize_divisors (size_of 100 100) (size_of 20 300))"
  by (simp add: getFittingSize_divisors_def fitting_defs)

section \<open>The shared bounding box\<close>

lemmas handler_defs =
  onValueChange_def onPreviousImageLoad_def onCurrentImageLoad_def onContainerRef_def

lemmas component_defs =
  run_def handler_defs constructor_def getScaledDimensions_def containerSize_def
  js_or_zero_def

lemma getFittingSize_zero_container:
  assumes "0 \<le> w" and "0 \<le> h"
  shows "getFittingSize (size_of w h) (size_of 0 0) = size_of w h"
proof -
  have "ratio (size_of w h) (size_of 0 0) = Fin 1"
  proof (rule ratio_one)
    show "0 - 20 < w \<longrightarrow> (0::rat) - 20 \<noteq> 0 \<and> w / (0 - 20) \<le> 1"
      using assms(1) by (simp add: divide_le_0_iff order_trans [of _ 0 1])
    show "0 - 20 - 60 < h \<longrightarrow> (0::rat) - 20 - 60 \<noteq> 0 \<and> h / (0 - 20 - 60) \<le> 1"
      using assms(2) by (simp add: divide_le_0_iff order_trans [of _ 0 1])
  qed
  then show ?thesis by (rule getFittingSize_ratio_one)
qed

text \<open>
  C7, as the code has it. When the container measures 0 by 0 and both image sizes are
  loaded, with sides that are not negative, \<open>getFittingSize\<close> returns each image size
  unchanged, and \<open>getScaledDimensions\<close> yields, without an error, the larger of the two
  natural heights as height and the larger of the previous natural width and the current
  natural height as width; they are zero only when those natural sizes are.
\<close>

theorem getScaledDimensions_zero_container:
  assumes "containerSize this = size_of 0 0"
      and "previousImageSize (state this) = Some (size_of pw ph)"
      and "currentImageSize (state this) = Some (size_of cw ch)"
      and "0 \<le> pw" and "0 \<le> ph" and "0 \<le> cw" and "0 \<le> ch"
  shows "getFittingSize (size_of pw ph) (containerSize this) = size_of pw ph
       \<and> getFittingSize (size_of cw ch) (containerSize this) = size_of cw ch
       \<and> getScaledDimensions this
           = \<lparr> width = Fin (max pw ch), height = Fin (max ph ch),
               containerHeight = Fin 0, containerWidth = Fin 0 \<rparr>"
proof -
  have p: "getFittingSize (size_of pw ph) (size_of 0 0) = size_of pw ph"
    using assms by (simp add: getFittingSize_zero_container)
  have c: "getFittingSize (size_of cw ch) (size_of 0 0) = size_of cw ch"
    using assms by (simp add: getFittingSize_zero_container)
  show ?thesis
    unfolding getScaledDimensions_def assms(1,2,3)
    by (simp add: p c) (simp add: size_of_def)
qed

theorem getScaledDimensions_zero_container_witness:
  "containerSize (run [ContainerRef (Some (size_of 0 0)), PreviousImageLoad 640 480,
                       CurrentImageLoad 800 600]) = size_of 0 0
   \<and> previousImageSize (state (run [ContainerRef (Some (size_of 0 0)),
        PreviousImageLoad 640 480, CurrentImageLoad 800 600])) = Some (size_of 640 480)
   \<and> currentImageSize (state (run [ContainerRef (Some (size_of 0 0)),
        PreviousImageLoad 640 480, CurrentImageLoad 800 600])) = Some (size_of 800 600)
   \<and> getScaledDimensions (run [ContainerRef (Some (size_of 0 0)), PreviousImageLoad 640 480,
                                CurrentImageLoad 800 600])
       = \<lparr> width = Fin 640, height = Fin 600, containerHeight = Fin 0, containerWidth = Fin 0 \<rparr>"
  using getScaledDimensions_zero_container
    [where this = "run [ContainerRef (Some (size_of 0 0)), PreviousImageLoad 640 480,
                        CurrentImageLoad 800 600]"
       and pw = 640 and ph = 480 and cw = 800 and ch = 600]
  by (simp add: run_def handler_defs constructor_def containerSize_def js_or_zero_def
      size_of_def)

text \<open>A container of 0 by 0 with the images 100 by 50 and 30 by 40 loaded: the height
  is 50 and the width is 100, not zero.\<close>

theorem getScaledDimensions_zero_container_not_zero:
  "getScaledDimensions
     (run [ContainerRef (Some (size_of 0 0)), PreviousImageLoad 100 50, CurrentImageLoad 30 40])
   = \<lparr> width = Fin 100, height = Fin 50, containerHeight = Fin 0, containerWidth = Fin 0 \<rparr>"
  by (simp add: component_defs fitting_defs)

text \<open>
  C8. When both image sizes are loaded, the height that \<open>getScaledDimensions\<close> returns
  is the larger of the two fitted heights, and the width is the larger of the fitted
  width of the previous image and the fitted height of the current image.
\<close>

theorem getScaledDimensions_bounding_box:
  assumes "previousImageSize (state this) = Some p"
      and "currentImageSize (state this) = Some c"
  shows "height (getScaledDimensions this)
           = js_max (height (getFittingSize p (containerSize this)))
                    (height (getFittingSize c (containerSize this)))
       \<and> width (getScaledDimensions this)
           = js_max (width (getFittingSize p (containerSize this)))
                    (height (getFittingSize c (containerSize this)))"
  using assms by (simp add: getScaledDimensions_def Let_def)

text \<open>In a container of 1000 by 1000 the images 100 by 50 and 300 by 40 both fit; the
  width of the box is 100, from the width 100 and the height 40, and not 300.\<close>

theorem getScaledDimensions_bounding_box_witness:
  "previousImageSize (state (run [ContainerRef (Some (size_of 1000 1000)),
        PreviousImageLoad 100 50, CurrentImageLoad 300 40])) = Some (size_of 100 50)
   \<and> currentImageSize (state (run [ContainerRef (Some (size_of 1000 1000)),
        PreviousImageLoad 100 50, CurrentImageLoad 300 40])) = Some (size_of 300 40)
   \<and> height (getScaledDimensions (run [ContainerRef (Some (size_of 1000 1000)),
        PreviousImageLoad 100 50, CurrentImageLoad 300 40])) = Fin 50
   \<and> width (getScaledDimensions (run [ContainerRef (Some (size_of 1000 1000)),
        PreviousImageLoad 100 50, CurrentImageLoad 300 40])) = Fin 100"
  using getScaledDimensions_bounding_box
    [where this = "run [ContainerRef (Some (size_of 1000 1000)), PreviousImageLoad 100 50,
                        CurrentImageLoad 300 40]"
       and p = "size_of 100 50" and c = "size_of 300 40"]
  by (simp add: run_def handler_defs constructor_def containerSize_def js_or_zero_def
      fitting_defs)

section \<open>Sizes that are not loaded yet\<close>

text \<open>
  C10. As long as the previous or the current image size is null, \<open>getScaledDimensions\<close>
  returns the height 0 and the width 0, whatever the container measures. Both sizes are
  null after the constructor, and a handler changes the previous size only on the load of
  the previous image and the current size only on the load of the current image.
\<close>

theorem getScaledDimensions_unloaded:
  "(previousImageSize (state this) = None \<or> currentImageSize (state this) = None \<longrightarrow>
      height (getScaledDimensions this) = Fin 0 \<and> width (getScaledDimensions this) = Fin 0)
   \<and> previousImageSize (state constructor) = None
   \<and> currentImageSize (state constructor) = None
   \<and> (previousImageSize (state (handle this ev)) \<noteq> previousImageSize (state this) \<longrightarrow>
        (\<exists>w h. ev = PreviousImageLoad w h))
   \<and> (currentImageSize (state (handle this ev)) \<noteq> currentImageSize (state this) \<longrightarrow>
        (\<exists>w h. ev = CurrentImageLoad w h))"
proof -
  have a: "previousImageSize (state this) = None \<or> currentImageSize (state this) = None \<longrightarrow>
      height (getScaledDimensions this) = Fin 0 \<and> width (getScaledDimensions this) = Fin 0"
    by (auto simp add: getScaledDimensions_def split: option.splits)
  have b: "previousImageSize (state constructor) = None
      \<and> currentImageSize (state constructor) = None"
    by (simp add: constructor_def)
  have c: "previousImageSize (state (handle this ev)) \<noteq> previousImageSize (state this) \<longrightarrow>
        (\<exists>w h. ev = PreviousImageLoad w h)"
    by (cases ev) (simp_all add: handler_defs Let_def)
  have d: "currentImageSize (state (handle this ev)) \<noteq> currentImageSize (state this) \<longrightarrow>
        (\<exists>w h. ev = CurrentImageLoad w h)"
    by (cases ev) (simp_all add: handler_defs Let_def)
  show ?thesis using a b c d by blast
qed

text \<open>After the container is set to 500 by 500 and the previous image alone has loaded,
  the dimensions are still zero; the load of the current image then sets its size.\<close>

theorem getScaledDimensions_unloaded_witness:
  "currentImageSize (state (run [ContainerRef (Some (size_of 500 500)),
                                 PreviousImageLoad 100 50])) = None
   \<and> height (getScaledDimensions (run [ContainerRef (Some (size_of 500 500)),
                                        PreviousImageLoad 100 50])) = Fin 0
   \<and> width (getScaledDimensions (run [ContainerRef (Some (size_of 500 500)),
                                       PreviousImageLoad 100 50])) = Fin 0
   \<and> currentImageSize (state (handle (run [ContainerRef (Some (size_of 500 500)),
                                            PreviousImageLoad 100 50]) (CurrentImageLoad 30 40)))
       \<noteq> currentImageSize (state (run [ContainerRef (Some (size_of 500 500)),
                                        PreviousImageLoad 100 50]))
   \<and> previousImageSize (state (handle constructor (PreviousImageLoad 100 50)))
       \<noteq> previousImageSize (state constructor)"
  using getScaledDimensions_unloaded
    [where this = "run [ContainerRef (Some (size_of 500 500)), PreviousImageLoad 100 50]"
       and ev = "CurrentImageLoad 30 40"]
    getScaledDimensions_unloaded
    [where this = constructor and ev = "PreviousImageLoad 100 50"]
  by (simp add: run_def handler_defs constructor_def)

section \<open>The slider value\<close>






end
